theory Spec2Isabelle
  imports Complex_Main
begin

section \<open>JavaScript values used by the components\<close>

text \<open>
  The components are TypeScript. A field of type \<^verbatim>\<open>number\<close> is an IEEE double: a finite
  value, one of the two infinities, or NaN. Every finite double is a real number and the
  comparison of two finite doubles is the comparison of these reals, so a finite number
  is modelled by the real it denotes. Comparisons with NaN are false.
\<close>

datatype number = NaN | NegInf | Fin real | PosInf

text \<open>The operator \<^verbatim>\<open>a >= b\<close> on numbers.\<close>

fun js_ge :: "number \<Rightarrow> number \<Rightarrow> bool" where
  "js_ge NaN b = False"
| "js_ge a NaN = False"
| "js_ge PosInf b = True"
| "js_ge a NegInf = True"
| "js_ge NegInf b = False"
| "js_ge a PosInf = False"
| "js_ge (Fin a) (Fin b) = (b \<le> a)"

text \<open>The operator \<^verbatim>\<open>a === b\<close> on numbers: NaN is equal to nothing.\<close>

fun js_strict_eq :: "number \<Rightarrow> number \<Rightarrow> bool" where
  "js_strict_eq NaN b = False"
| "js_strict_eq a NaN = False"
| "js_strict_eq a b = (a = b)"

text \<open>Truthiness of a number (\<^verbatim>\<open>x || fallback\<close>): zero and NaN are falsy.\<close>

fun truthy_number :: "number \<Rightarrow> bool" where
  "truthy_number NaN = False"
| "truthy_number (Fin x) = (x \<noteq> 0)"
| "truthy_number a = True"

text \<open>
  Division by a positive finite constant, \<^verbatim>\<open>value / 1_000\<close>. The quotient of a finite
  value is taken exactly; the double the runtime rounds it to is not modelled.
\<close>

fun div_by :: "number \<Rightarrow> real \<Rightarrow> number" where
  "div_by (Fin x) c = Fin (x / c)"
| "div_by a c = a"

text \<open>Exceptions a JavaScript built-in can throw.\<close>

datatype js_error = RangeError | ReferenceError | TypeError

section \<open>Score colours (App.tsx, JobAnalyzer.tsx, LegitimacyAnalyzer.tsx)\<close>

text \<open>
  \<^verbatim>\<open>
  const getScoreColor = (score: number): string => {
    if (score >= 70) return 'from-emerald-500 to-green-600';
    if (score >= 40) return 'from-yellow-500 to-orange-500';
    return 'from-red-500 to-rose-600';
  };
  \<close>
  The function is declared with the same body in App.tsx (lines 153-157), in
  JobAnalyzer.tsx (lines 186-190) and in LegitimacyAnalyzer.tsx.
\<close>

definition green_band :: string where
  "green_band = ''from-emerald-500 to-green-600''"

definition yellow_band :: string where
  "yellow_band = ''from-yellow-500 to-orange-500''"

definition red_band :: string where
  "red_band = ''from-red-500 to-rose-600''"

definition getScoreColor :: "number \<Rightarrow> string" where
  "getScoreColor score =
     (if js_ge score (Fin 70) then ''from-emerald-500 to-green-600''
      else if js_ge score (Fin 40) then ''from-yellow-500 to-orange-500''
      else ''from-red-500 to-rose-600'')"

definition getScoreColor_job :: "number \<Rightarrow> string" where
  "getScoreColor_job score =
     (if js_ge score (Fin 70) then ''from-emerald-500 to-green-600''
      else if js_ge score (Fin 40) then ''from-yellow-500 to-orange-500''
      else ''from-red-500 to-rose-600'')"

section \<open>DynamicStats.tsx\<close>

subsection \<open>formatCompact\<close>

text \<open>
  \<^verbatim>\<open>
  const formatCompact = (value: number): string => {
    try {
      return new Intl.NumberFormat('en', {
        notation: 'compact',
        maximumFractionDigits: 1,
      }).format(value);
    } catch {
      // Fallback for environments without Intl support
      if (value >= 1_000_000) return `${(value / 1_000_000).toFixed(1)}M`;
      if (value >= 1_000) return `${(value / 1_000).toFixed(1)}K`;
      return String(value);
    }
  };
  \<close>
  The built-ins the function calls belong to the runtime, not to the repository, and are
  parameters of the model: the compact formatter (which throws where \<^verbatim>\<open>Intl\<close> is
  missing or rejects its options), the digits \<^verbatim>\<open>toFixed\<close> writes for a valid digit
  count, and \<^verbatim>\<open>String\<close>.
\<close>

record runtime =
  intl_compact :: "number \<Rightarrow> js_error + string"
  fixed_digits :: "nat \<Rightarrow> number \<Rightarrow> string"
  to_String :: "number \<Rightarrow> string"

text \<open>
  \<^verbatim>\<open>Number.prototype.toFixed(digits)\<close> throws a RangeError when \<^verbatim>\<open>digits\<close> is not
  between 0 and 100, and returns a string otherwise.
\<close>

definition toFixed :: "runtime \<Rightarrow> number \<Rightarrow> int \<Rightarrow> js_error + string" where
  "toFixed rt x digits =
     (if digits < 0 \<or> 100 < digits then Inl RangeError
      else Inr (fixed_digits rt (nat digits) x))"

definition formatCompact :: "runtime \<Rightarrow> number \<Rightarrow> js_error + string" where
  "formatCompact rt v =
     (case intl_compact rt v of
        Inr s \<Rightarrow> Inr s
      | Inl caught \<Rightarrow>
          if js_ge v (Fin 1000000) then
            (case toFixed rt (div_by v 1000000) 1 of
               Inl e \<Rightarrow> Inl e
             | Inr s \<Rightarrow> Inr (s @ ''M''))
          else if js_ge v (Fin 1000) then
            (case toFixed rt (div_by v 1000) 1 of
               Inl e \<Rightarrow> Inl e
             | Inr s \<Rightarrow> Inr (s @ ''K''))
          else Inr (to_String rt v))"

text \<open>
  A runtime without \<^verbatim>\<open>Intl\<close>, for running the fallback branch: the constructor
  throws a ReferenceError, and the two digit writers are given at the values used.
\<close>

definition no_intl_runtime :: runtime where
  "no_intl_runtime =
     \<lparr>intl_compact = (\<lambda>v. Inl ReferenceError),
      fixed_digits = (\<lambda>d v. if d = 1 \<and> v = Fin (3 / 2) then ''1.5'' else ''12.3''),
      to_String = (\<lambda>v. if v = Fin 999 then ''999'' else ''0'')\<rparr>"

subsection \<open>The rotating testimonials\<close>

record Testimonial =
  quote :: string
  author :: string
  role :: "string option"

text \<open>
  The three testimonials of the module. The first quote has a non-breaking hyphen
  (U+2011), written here as its three UTF-8 bytes.
\<close>

definition testimonials :: "Testimonial list" where
  "testimonials =
     [\<lparr>quote = ''Platform Analyzer helped our team avoid a high''
               @ [CHR 0xE2, CHR 0x80, CHR 0x91] @ ''risk vendor in minutes.'',
       author = ''Alex P.'', role = Some ''Security Lead''\<rparr>,
      \<lparr>quote = ''The job offer checker caught subtle red flags I would have missed.'',
       author = ''Maria L.'', role = Some ''Job Seeker''\<rparr>,
      \<lparr>quote = ''We use it before every big investment decision. Huge peace of mind.'',
       author = ''James K.'', role = Some ''Retail Investor''\<rparr>]"

text \<open>
  The remainder operator \<^verbatim>\<open>a % b\<close> on integers with \<open>b \<noteq> 0\<close>: the result has the
  sign of the dividend.
\<close>

definition js_rem :: "int \<Rightarrow> int \<Rightarrow> int" where
  "js_rem a b = sgn a * (\<bar>a\<bar> mod \<bar>b\<bar>)"

text \<open>
  The state the rotation touches: \<^verbatim>\<open>useState(0)\<close> for the index and
  \<^verbatim>\<open>useRef(false)\<close> for the pause flag.
\<close>

record ds_state =
  currentTestimonial :: int
  testimonialPaused :: bool

definition ds_init :: ds_state where
  "ds_init = \<lparr>currentTestimonial = 0, testimonialPaused = False\<rparr>"

text \<open>
  \<^verbatim>\<open>
  testimonials.map((_, index) => (
    <button ... onClick={() => setCurrentTestimonial(index)} />
  ))
  \<close>
  One click handler per element of the array, in order.
\<close>

definition dot_buttons :: "(ds_state \<Rightarrow> ds_state) list" where
  "dot_buttons =
     map (\<lambda>index s. s\<lparr>currentTestimonial := int index\<rparr>) [0..<length testimonials]"

text \<open>
  What can happen to the component: the 6-second timer fires, the user clicks the dot
  at some position of the row, or the pointer or focus enters or leaves the panel.
\<close>

datatype ds_event = TimerTick | DotClick nat | MouseEnter | MouseLeave | FocusIn | BlurOut

text \<open>
  \<^verbatim>\<open>
  window.setInterval(() => {
    if (testimonialPausedRef.current) return;
    setCurrentTestimonial((prev) => (prev + 1) % testimonials.length);
  }, 6000);
  \<close>
  A click on a position with no button does nothing.
\<close>

fun ds_step :: "ds_state \<Rightarrow> ds_event \<Rightarrow> ds_state" where
  "ds_step s TimerTick =
     (if testimonialPaused s then s
      else s\<lparr>currentTestimonial :=
               js_rem (currentTestimonial s + 1) (int (length testimonials))\<rparr>)"
| "ds_step s (DotClick k) = (if k < length dot_buttons then (dot_buttons ! k) s else s)"
| "ds_step s MouseEnter = s\<lparr>testimonialPaused := True\<rparr>"
| "ds_step s MouseLeave = s\<lparr>testimonialPaused := False\<rparr>"
| "ds_step s FocusIn = s\<lparr>testimonialPaused := True\<rparr>"
| "ds_step s BlurOut = s\<lparr>testimonialPaused := False\<rparr>"

definition ds_run :: "ds_event list \<Rightarrow> ds_state" where
  "ds_run evs = foldl ds_step ds_init evs"

text \<open>
  \<^verbatim>\<open>const current = testimonials[currentTestimonial];\<close> An index outside the array
  reads \<^verbatim>\<open>undefined\<close>, and the panel's \<^verbatim>\<open>current.quote\<close> then throws a TypeError.
\<close>

definition current :: "ds_state \<Rightarrow> Testimonial option" where
  "current s =
     (if 0 \<le> currentTestimonial s \<and> currentTestimonial s < int (length testimonials)
      then Some (testimonials ! nat (currentTestimonial s)) else None)"

definition testimonial_panel :: "ds_state \<Rightarrow> js_error + string \<times> string \<times> string option" where
  "testimonial_panel s =
     (case current s of
        None \<Rightarrow> Inl TypeError
      | Some t \<Rightarrow> Inr (quote t, author t, role t))"

section \<open>CommentsSection.tsx\<close>

subsection \<open>State\<close>

text \<open>The \<^verbatim>\<open>Comment\<close> interface; its fields carry the prefix \<open>c_\<close> here.\<close>

record Comment =
  c_id :: int
  c_user_name :: string
  c_rating :: int
  c_experience :: string
  c_comment :: string
  c_was_scammed :: bool
  c_timestamp :: string
  c_helpful_count :: int

record Breakdown =
  positive :: int
  neutral :: int
  negative :: int

record Stats =
  total_comments :: int
  average_rating :: real
  scam_reports :: int
  experience_breakdown :: Breakdown

record FormData =
  user_name :: string
  rating :: int
  experience :: string
  comment :: string
  was_scammed :: bool

record cs_state =
  comments :: "Comment list"
  stats :: Stats
  showForm :: bool
  formData :: FormData
  submitting :: bool

text \<open>The literal both \<^verbatim>\<open>useState\<close> and the reset after a successful submission use.\<close>

definition empty_form :: FormData where
  "empty_form =
     \<lparr>user_name = '''', rating = 5, experience = ''positive'', comment = '''',
      was_scammed = False\<rparr>"

definition initial_stats :: Stats where
  "initial_stats =
     \<lparr>total_comments = 0, average_rating = 0, scam_reports = 0,
      experience_breakdown = \<lparr>positive = 0, neutral = 0, negative = 0\<rparr>\<rparr>"

definition cs_init :: cs_state where
  "cs_init =
     \<lparr>comments = [], stats = initial_stats, showForm = False, formData = empty_form,
      submitting = False\<rparr>"

subsection \<open>Requests\<close>

text \<open>
  The requests the component sends to the backend: the list of comments of a domain, a
  new comment (the form's fields and the page's url), and a helpful vote.
\<close>

datatype request =
    GetComments string
  | PostComment FormData string
  | PostHelpful int string

text \<open>\<^verbatim>\<open>s.replace(pat, rep)\<close> with a string pattern replaces the first occurrence.\<close>

fun replace_first :: "string \<Rightarrow> string \<Rightarrow> string \<Rightarrow> string" where
  "replace_first pat rep [] = (if pat = [] then rep else [])"
| "replace_first pat rep (c # cs) =
     (if take (length pat) (c # cs) = pat then rep @ drop (length pat) (c # cs)
      else c # replace_first pat rep cs)"

text \<open>
  \<^verbatim>\<open>new URL(url.startsWith('http') ? url : `https://${url}`).hostname.replace('www.', '')\<close>
  The URL parser is the runtime's and a parameter: it gives the host name, or nothing
  where the constructor throws (the surrounding \<^verbatim>\<open>try\<close> catches it).
\<close>

definition domain_of :: "(string \<Rightarrow> string option) \<Rightarrow> string \<Rightarrow> string option" where
  "domain_of hostname url =
     map_option (replace_first ''www.'' '''')
       (hostname (if take 4 url = ''http'' then url else ''https://'' @ url))"

text \<open>\<^verbatim>\<open>loadComments\<close> up to its first \<^verbatim>\<open>await\<close>: the request it sends, if any.\<close>

definition loadComments :: "(string \<Rightarrow> string option) \<Rightarrow> string \<Rightarrow> request list" where
  "loadComments hostname url =
     (case domain_of hostname url of None \<Rightarrow> [] | Some d \<Rightarrow> [GetComments d])"

text \<open>
  \<^verbatim>\<open>loadComments\<close> after the response: \<^verbatim>\<open>data.comments || []\<close> and the four
  statistics of the payload; nothing changes when the fetch or the parse threw.
\<close>

definition loadComments_settled ::
  "(Comment list option \<times> Stats) option \<Rightarrow> cs_state \<Rightarrow> cs_state" where
  "loadComments_settled payload s =
     (case payload of
        None \<Rightarrow> s
      | Some (cs, st) \<Rightarrow>
          s\<lparr>comments := (case cs of None \<Rightarrow> [] | Some l \<Rightarrow> l), stats := st\<rparr>)"

subsection \<open>Submitting a comment\<close>

text \<open>
  \<^verbatim>\<open>
  const handleSubmit = async () => {
    if (!formData.user_name || !formData.comment) return;
    setSubmitting(true);
    try {
      const response = await fetch(`${API_BASE_URL}/api/comments`, {
        method: 'POST', ..., body: JSON.stringify({ ...formData, url })
      });
      if (response.ok) {
        setFormData({ user_name: '', rating: 5, experience: 'positive', comment: '',
                      was_scammed: false });
        setShowForm(false);
        loadComments();
      }
    } catch (error) { ... } finally { setSubmitting(false); }
  };
  \<close>
  \<open>handleSubmit\<close> is the function up to the \<^verbatim>\<open>await\<close>: the state it leaves and the
  requests it has sent. A string is falsy exactly when it is empty.
  \<open>handleSubmit_settled\<close> is the rest, run when the response (or the failure) arrives.
\<close>

definition handleSubmit :: "string \<Rightarrow> cs_state \<Rightarrow> cs_state \<times> request list" where
  "handleSubmit url s =
     (if user_name (formData s) = [] \<or> comment (formData s) = [] then (s, [])
      else (s\<lparr>submitting := True\<rparr>, [PostComment (formData s) url]))"

datatype fetch_outcome = Threw | NotOk | Ok

definition handleSubmit_settled ::
  "(string \<Rightarrow> string option) \<Rightarrow> string \<Rightarrow> fetch_outcome \<Rightarrow> cs_state
     \<Rightarrow> cs_state \<times> request list" where
  "handleSubmit_settled hostname url outcome s =
     (case outcome of
        Ok \<Rightarrow>
          (s\<lparr>formData := empty_form, showForm := False, submitting := False\<rparr>,
           loadComments hostname url)
      | NotOk \<Rightarrow> (s\<lparr>submitting := False\<rparr>, [])
      | Threw \<Rightarrow> (s\<lparr>submitting := False\<rparr>, []))"

text \<open>
  \<^verbatim>\<open>markHelpful(commentId)\<close>: a vote for the comment, then the list is loaded again.
  Both requests need the domain; a url that does not parse sends nothing.
\<close>

definition markHelpful :: "(string \<Rightarrow> string option) \<Rightarrow> string \<Rightarrow> int \<Rightarrow> request list" where
  "markHelpful hostname url commentId =
     (case domain_of hostname url of
        None \<Rightarrow> []
      | Some d \<Rightarrow> [PostHelpful commentId d])"

subsection \<open>The form's controls\<close>

text \<open>
  \<^verbatim>\<open>
  {[1, 2, 3, 4, 5].map((star) => (
    <button key={star} onClick={() => setFormData({ ...formData, rating: star })}>
  \<close>
  and likewise the three experience buttons: one handler per element of the literal.
\<close>

definition star_buttons :: "(FormData \<Rightarrow> FormData) list" where
  "star_buttons = map (\<lambda>star fd. fd\<lparr>rating := star\<rparr>) [1, 2, 3, 4, 5]"

definition experience_buttons :: "(FormData \<Rightarrow> FormData) list" where
  "experience_buttons =
     map (\<lambda>exp fd. fd\<lparr>experience := exp\<rparr>) [''positive'', ''neutral'', ''negative'']"

text \<open>\<^verbatim>\<open>disabled={submitting || !formData.user_name || !formData.comment}\<close>\<close>

definition submit_disabled :: "cs_state \<Rightarrow> bool" where
  "submit_disabled s =
     (submitting s \<or> user_name (formData s) = [] \<or> comment (formData s) = [])"

text \<open>
  What can happen to the component. The controls of the form exist only while
  \<^verbatim>\<open>showForm\<close> holds, a button is addressed by its position in its row, and a click
  on a missing or disabled control does nothing. The settling of a request carries what
  the backend answered.
\<close>

datatype cs_event =
    ToggleForm
  | TypeUserName string
  | StarClick nat
  | ExperienceClick nat
  | TypeComment string
  | CheckWasScammed bool
  | SubmitClick
  | SubmitSettled fetch_outcome
  | CommentsLoaded "(Comment list option \<times> Stats) option"
  | HelpfulClick nat
  | HelpfulSettled

definition on_form :: "cs_state \<Rightarrow> (FormData \<Rightarrow> FormData) \<Rightarrow> cs_state \<times> request list" where
  "on_form s f = (if showForm s then (s\<lparr>formData := f (formData s)\<rparr>, []) else (s, []))"

fun cs_step ::
  "(string \<Rightarrow> string option) \<Rightarrow> string \<Rightarrow> cs_state \<Rightarrow> cs_event \<Rightarrow> cs_state \<times> request list" where
  "cs_step hostname url s ToggleForm = (s\<lparr>showForm := \<not> showForm s\<rparr>, [])"
| "cs_step hostname url s (TypeUserName v) = on_form s (\<lambda>fd. fd\<lparr>user_name := v\<rparr>)"
| "cs_step hostname url s (StarClick k) =
     (if k < length star_buttons then on_form s (star_buttons ! k) else (s, []))"
| "cs_step hostname url s (ExperienceClick k) =
     (if k < length experience_buttons then on_form s (experience_buttons ! k) else (s, []))"
| "cs_step hostname url s (TypeComment v) = on_form s (\<lambda>fd. fd\<lparr>comment := v\<rparr>)"
| "cs_step hostname url s (CheckWasScammed b) = on_form s (\<lambda>fd. fd\<lparr>was_scammed := b\<rparr>)"
| "cs_step hostname url s SubmitClick =
     (if showForm s \<and> \<not> submit_disabled s then handleSubmit url s else (s, []))"
| "cs_step hostname url s (SubmitSettled outcome) = handleSubmit_settled hostname url outcome s"
| "cs_step hostname url s (CommentsLoaded payload) = (loadComments_settled payload s, [])"
| "cs_step hostname url s (HelpfulClick k) =
     (if k < length (comments s) then (s, markHelpful hostname url (c_id (comments s ! k)))
      else (s, []))"
| "cs_step hostname url s HelpfulSettled = (s, loadComments hostname url)"

text \<open>
  A run of the component: it mounts with the initial state and the \<^verbatim>\<open>useEffect\<close> that
  loads the comments, then handles the events in order; the requests sent are collected.
\<close>

fun cs_run_from ::
  "(string \<Rightarrow> string option) \<Rightarrow> string \<Rightarrow> cs_state \<times> request list \<Rightarrow> cs_event list
     \<Rightarrow> cs_state \<times> request list" where
  "cs_run_from hostname url (s, sent) [] = (s, sent)"
| "cs_run_from hostname url (s, sent) (e # es) =
     (case cs_step hostname url s e of
        (s', reqs) \<Rightarrow> cs_run_from hostname url (s', sent @ reqs) es)"

definition cs_run ::
  "(string \<Rightarrow> string option) \<Rightarrow> string \<Rightarrow> cs_event list \<Rightarrow> cs_state \<times> request list" where
  "cs_run hostname url evs = cs_run_from hostname url (cs_init, loadComments hostname url) evs"

subsection \<open>Properties of a run\<close>

text \<open>The rating of a form is one of 1, ..., 5.\<close>

definition rating_in_range :: "FormData \<Rightarrow> bool" where
  "rating_in_range fd = (1 \<le> rating fd \<and> rating fd \<le> 5)"

text \<open>A request that submits a comment carries a rating in range.\<close>

fun submits_in_range :: "request \<Rightarrow> bool" where
  "submits_in_range (PostComment fd url) = rating_in_range fd"
| "submits_in_range (GetComments d) = True"
| "submits_in_range (PostHelpful i d) = True"

text \<open>The events that bring a payload of the backend into the state.\<close>

fun brings_payload :: "cs_event \<Rightarrow> bool" where
  "brings_payload (CommentsLoaded (Some payload)) = True"
| "brings_payload e = False"

subsection \<open>The summary the backend computes\<close>

text \<open>
  Modelled from the spec: the CommentAggregator of the backend, which is not among the
  sources (the component only displays what \<^verbatim>\<open>GET /api/comments/{domain}\<close> returns).
  Section 4.3: \<open>average_rating\<close> is 0 for the empty set and the arithmetic mean of the
  ratings otherwise; \<open>scam_reports\<close> counts the comments with \<open>was_scammed\<close>;
  \<open>experience_breakdown\<close> counts the comments of each of the three categories, and a
  comment of any other category is counted in no bucket; \<open>total_comments\<close> is the
  number of comments.
\<close>

definition CommentAggregator :: "Comment list \<Rightarrow> Stats" where
  "CommentAggregator cs =
     \<lparr>total_comments = int (length cs),
      average_rating =
        (if cs = [] then 0 else real_of_int (sum_list (map c_rating cs)) / real (length cs)),
      scam_reports = int (length (filter c_was_scammed cs)),
      experience_breakdown =
        \<lparr>positive = int (length (filter (\<lambda>c. c_experience c = ''positive'') cs)),
         neutral = int (length (filter (\<lambda>c. c_experience c = ''neutral'') cs)),
         negative = int (length (filter (\<lambda>c. c_experience c = ''negative'') cs))\<rparr>\<rparr>"

section \<open>JobAnalyzer.tsx\<close>

record JobFormData =
  job_url :: string
  job_description :: string
  company_name :: string
  salary :: string
  recruiter_email :: string

text \<open>
  The component's state variables. The signed-in user (\<^verbatim>\<open>any\<close>) and the backend's
  \<^verbatim>\<open>JobAnalysisResult\<close> are never inspected by \<^verbatim>\<open>analyzeJob\<close> and stay type
  parameters.
\<close>

record ('u, 'r) ja_state =
  ja_user :: "'u option"
  ja_showAuthModal :: bool
  ja_hasScrolledToResults :: bool
  ja_formData :: JobFormData
  ja_analyzing :: bool
  ja_result :: "'r option"
  ja_error :: "string option"
  ja_analysisSteps :: "string list"

definition ja_init :: "'u option \<Rightarrow> ('u, 'r) ja_state" where
  "ja_init sharedUser =
     \<lparr>ja_user = sharedUser, ja_showAuthModal = False, ja_hasScrolledToResults = False,
      ja_formData = \<lparr>job_url = '''', job_description = '''', company_name = '''',
                     salary = '''', recruiter_email = ''''\<rparr>,
      ja_analyzing = False, ja_result = None, ja_error = None, ja_analysisSteps = []\<rparr>"

definition API_BASE_URL :: string where
  "API_BASE_URL = ''https://platform-analyzer-backend.onrender.com''"

definition steps :: "string list" where
  "steps =
     [''Scraping job posting details...'',
      ''Analyzing recruiter email...'',
      ''Checking job platform legitimacy...'',
      ''Scanning for red flag keywords...'',
      ''Verifying salary reasonableness...'',
      ''Checking company online presence...'',
      ''Running AI fraud detection...'',
      ''Calculating trust score...'']"

text \<open>
  What \<^verbatim>\<open>analyzeJob\<close> asks of the runtime: a timer (delay in milliseconds, and the step
  its callback appends) and the HTTP request (address and JSON body).
\<close>

datatype ja_effect = SetTimeout nat string | HttpPost string JobFormData

text \<open>
  \<^verbatim>\<open>
  const analyzeJob = async () => {
    if (!formData.job_url && !formData.job_description) {
      setError('Please provide either a job URL or job description');
      return;
    }
    setAnalyzing(true); setAnalysisSteps([]); setResult(null); setError(null);
    setHasScrolledToResults(false);
    const steps = [...];
    steps.forEach((step, index) => {
      setTimeout(() => { setAnalysisSteps(prev => [...prev, step]); }, index * 500);
    });
    try {
      const response = await fetch(`${API_BASE_URL}/api/analyze-job`, {
        method: 'POST', ..., body: JSON.stringify(formData) });
      ...
  \<close>
  \<open>analyzeJob\<close> is the function up to the \<^verbatim>\<open>await\<close>: the state it leaves and what
  it has asked of the runtime, in order.
\<close>

definition analyzeJob :: "('u, 'r) ja_state \<Rightarrow> ('u, 'r) ja_state \<times> ja_effect list" where
  "analyzeJob s =
     (if job_url (ja_formData s) = [] \<and> job_description (ja_formData s) = [] then
        (s\<lparr>ja_error := Some ''Please provide either a job URL or job description''\<rparr>, [])
      else
        (s\<lparr>ja_analyzing := True, ja_analysisSteps := [], ja_result := None,
           ja_error := None, ja_hasScrolledToResults := False\<rparr>,
         map (\<lambda>(index, step). SetTimeout (index * 500) step) (enumerate 0 steps)
         @ [HttpPost (API_BASE_URL @ ''/api/analyze-job'') (ja_formData s)]))"

text \<open>A step timer fires: \<^verbatim>\<open>setAnalysisSteps(prev => [...prev, step])\<close>.\<close>

definition step_timer :: "string \<Rightarrow> ('u, 'r) ja_state \<Rightarrow> ('u, 'r) ja_state" where
  "step_timer step s = s\<lparr>ja_analysisSteps := ja_analysisSteps s @ [step]\<rparr>"

text \<open>
  The rest of \<^verbatim>\<open>analyzeJob\<close>: the response is the parsed result, or the \<^verbatim>\<open>catch\<close>
  branch runs with the message it shows.
\<close>

datatype 'r response = Success 'r | Failure string

fun analyzeJob_settled :: "'r response \<Rightarrow> ('u, 'r) ja_state \<Rightarrow> ('u, 'r) ja_state" where
  "analyzeJob_settled (Success data) s = s\<lparr>ja_result := Some data, ja_analyzing := False\<rparr>"
| "analyzeJob_settled (Failure msg) s =
     s\<lparr>ja_error := Some msg, ja_analyzing := False, ja_analysisSteps := []\<rparr>"

section \<open>LegitimacyAnalyzer.tsx\<close>

subsection \<open>The result of an analysis\<close>

text \<open>
  The interfaces of the module. The two fields of \<^verbatim>\<open>Finding\<close> are \<^verbatim>\<open>type\<close> and
  \<^verbatim>\<open>text\<close> in the source; the three of \<^verbatim>\<open>sentiment\<close> are \<^verbatim>\<open>positive\<close>,
  \<^verbatim>\<open>neutral\<close> and \<^verbatim>\<open>negative\<close>.
\<close>

datatype severity = Critical | Warning | Info

record Finding =
  f_type :: severity
  f_text :: string

record WHOISData =
  registrar :: string
  owner :: string
  email :: string
  lastUpdated :: string

record ContentAnalysis =
  aboutUsFound :: bool
  termsOfServiceFound :: bool
  contactInfoFound :: bool
  physicalAddressFound :: bool
  teamPhotosAnalyzed :: bool
  stockImagesDetected :: bool

record SocialData =
  redditMentions :: number
  twitterMentions :: number
  trustpilotScore :: number
  scamAdvisorScore :: number

record Sentiment =
  sentiment_positive :: number
  sentiment_neutral :: number
  sentiment_negative :: number

record PonziCalculation =
  promisedReturn :: string
  yearlyEquivalent :: string
  sustainability :: string
  collapseDays :: string

record PeopleExperience =
  experienceScore :: number
  userExperienceRating :: string
  hasTestimonials :: bool
  hasSocialProof :: bool
  hasSupport :: bool

record AnalysisResult =
  url :: string
  trustScore :: number
  verdict :: string
  domainAge :: string
  domainRegistered :: string
  sslStatus :: string
  serverLocation :: string
  whoisData :: WHOISData
  contentAnalysis :: ContentAnalysis
  socialData :: SocialData
  withdrawalComplaints :: number
  findings :: "Finding list"
  sentiment :: Sentiment
  redFlags :: "string list"
  ponziCalculation :: "PonziCalculation option"
  scamProbability :: string
  recommendation :: string
  aiAnalysis :: "string option"
  peopleExperience :: "PeopleExperience option"

subsection \<open>The component's state\<close>

text \<open>
  The \<^verbatim>\<open>useState\<close> variables. The user is of type \<^verbatim>\<open>any\<close>; the component only
  asks whether it is there (\<^verbatim>\<open>!user\<close>), so it is a type parameter, and \<open>None\<close> is
  \<^verbatim>\<open>null\<close>. An analysis step is kept as its label and delay.
\<close>

record 'u la_state =
  la_url :: string
  la_analyzing :: bool
  la_result :: "AnalysisResult option"
  la_analysisSteps :: "(string \<times> nat) list"
  la_currentTestimonial :: int
  la_error :: "string option"
  la_showAuthModal :: bool
  la_user :: "'u option"
  la_hasScrolledToResults :: bool

subsection \<open>What the result block renders\<close>

text \<open>
  The threat status and the style of the recommendation panel are conditional
  expressions of the source with three or four outcomes.
\<close>

datatype threat = Danger | Clean | ThreatCaution | HighRisk

datatype panel_style = CriticalStyle | ScamStyle | DefaultStyle

text \<open>
  The elements the block \<^verbatim>\<open>{result && ( ... )}\<close> puts on the page, each with the data
  it shows. The carousel shows the testimonial at the component's own index.
\<close>

datatype node =
    TrustScoreSection string string number string string
  | SignInOverlay
  | DomainAgeCard string string
  | SecurityCard string string
  | ThreatStatusCard threat
  | RiskLevelCard string
  | TestimonialCarousel int
  | AIAnalysisPanel string
  | PeopleExperiencePanel number string bool bool bool
  | CriticalThreatBanner
  | FindingRow severity string
  | RecommendationPanel panel_style bool string
  | DoNotList
  | CommentsSectionNode string

text \<open>
  \<^verbatim>\<open>
  const getVerdictColor = (verdict: string): string => {
    if (verdict === 'Legit') return 'bg-gradient-to-r from-green-400 to-emerald-500 ...';
    if (verdict === 'Caution') return 'bg-gradient-to-r from-yellow-400 to-orange-400 ...';
    return 'bg-gradient-to-r from-red-500 to-rose-600 text-white border-red-400';
  };
  \<close>
\<close>

definition getVerdictColor :: "string \<Rightarrow> string" where
  "getVerdictColor v =
     (if v = ''Legit'' then
        ''bg-gradient-to-r from-green-400 to-emerald-500 text-white border-green-400''
      else if v = ''Caution'' then
        ''bg-gradient-to-r from-yellow-400 to-orange-400 text-white border-yellow-400''
      else ''bg-gradient-to-r from-red-500 to-rose-600 text-white border-red-400'')"

text \<open>
  Lines 381-398: the trust score section, outside the gated container. It shows
  \<^verbatim>\<open>result.url\<close>, \<^verbatim>\<open>result.trustScore\<close> in its colour and \<^verbatim>\<open>result.verdict\<close> in
  its colour.
\<close>

definition trust_score_section :: "AnalysisResult \<Rightarrow> node" where
  "trust_score_section r =
     TrustScoreSection (url r) (getScoreColor (trustScore r)) (trustScore r)
       (getVerdictColor (verdict r)) (verdict r)"

text \<open>
  Lines 400-419: \<^verbatim>\<open><div className={!user ? 'relative' : ''}>\<close> and
  \<^verbatim>\<open>{!user && ( <div className="absolute inset-0 z-10 ... backdrop-blur-sm"> ... )}\<close>:
  the container's class and the overlay laid over its content.
\<close>

definition container_class :: "'u option \<Rightarrow> string" where
  "container_class user = (if user = None then ''relative'' else [])"

definition sign_in_overlay :: "'u option \<Rightarrow> node list" where
  "sign_in_overlay user = (if user = None then [SignInOverlay] else [])"

text \<open>Lines 421-452: the four cards.\<close>

definition threat_status :: "AnalysisResult \<Rightarrow> threat" where
  "threat_status r =
     (if scamProbability r = ''CRITICAL - 100%'' then Danger
      else if js_ge (trustScore r) (Fin 70) then Clean
      else if js_ge (trustScore r) (Fin 40) then ThreatCaution
      else HighRisk)"

definition metric_cards :: "AnalysisResult \<Rightarrow> node list" where
  "metric_cards r =
     [DomainAgeCard (domainAge r) (domainRegistered r),
      SecurityCard (sslStatus r) (serverLocation r),
      ThreatStatusCard (threat_status r),
      RiskLevelCard (scamProbability r)]"

text \<open>Lines 482-506: \<^verbatim>\<open>{result.aiAnalysis && ( ... )}\<close>; an empty string is falsy.\<close>

definition ai_panel :: "AnalysisResult \<Rightarrow> node list" where
  "ai_panel r =
     (case aiAnalysis r of
        None \<Rightarrow> []
      | Some a \<Rightarrow> if a = [] then [] else [AIAnalysisPanel a])"

text \<open>
  Lines 508-555: \<^verbatim>\<open>{resultAsAny.peopleExperience && ( ... )}\<close>, with
  \<^verbatim>\<open>experienceScore || 50\<close> and \<^verbatim>\<open>userExperienceRating || 'Fair'\<close>.
\<close>

definition people_panel :: "AnalysisResult \<Rightarrow> node list" where
  "people_panel r =
     (case peopleExperience r of
        None \<Rightarrow> []
      | Some pe \<Rightarrow>
          [PeopleExperiencePanel
             (if truthy_number (experienceScore pe) then experienceScore pe else Fin 50)
             (if userExperienceRating pe = [] then ''Fair'' else userExperienceRating pe)
             (hasTestimonials pe) (hasSocialProof pe) (hasSupport pe)])"

text \<open>
  Lines 557-590: the banner \<^verbatim>\<open>{result.trustScore === 0 && ( ... )}\<close> and one row for
  each finding, in order.
\<close>

definition findings_panel :: "AnalysisResult \<Rightarrow> node list" where
  "findings_panel r =
     (if js_strict_eq (trustScore r) (Fin 0) then [CriticalThreatBanner] else [])
     @ map (\<lambda>finding. FindingRow (f_type finding) (f_text finding)) (findings r)"

text \<open>Lines 592-623: the recommendation, and the warning list under a score of 0.\<close>

definition recommendation_panel :: "AnalysisResult \<Rightarrow> node list" where
  "recommendation_panel r =
     [RecommendationPanel
        (if js_strict_eq (trustScore r) (Fin 0) then CriticalStyle
         else if verdict r = ''Scam'' then ScamStyle else DefaultStyle)
        (js_strict_eq (trustScore r) (Fin 0))
        (recommendation r)]
     @ (if js_strict_eq (trustScore r) (Fin 0) then [DoNotList] else [])"

text \<open>
  Lines 421-625, the content of the gated container after the overlay: the cards, the
  carousel, the panels and \<^verbatim>\<open><CommentsSection url={result.url} />\<close>. None of it is
  conditional on the user.
\<close>

definition detail_panels :: "int \<Rightarrow> AnalysisResult \<Rightarrow> node list" where
  "detail_panels ct r =
     metric_cards r @ [TestimonialCarousel ct] @ ai_panel r @ people_panel r
     @ findings_panel r @ recommendation_panel r @ [CommentsSectionNode (url r)]"

definition result_block :: "'u option \<Rightarrow> int \<Rightarrow> AnalysisResult \<Rightarrow> node list" where
  "result_block user ct r =
     trust_score_section r # sign_in_overlay user @ detail_panels ct r"

text \<open>\<^verbatim>\<open>{result && ( ... )}\<close> for a state of the component.\<close>

definition result_view :: "'u la_state \<Rightarrow> node list" where
  "result_view s =
     (case la_result s of
        None \<Rightarrow> []
      | Some r \<Rightarrow> result_block (la_user s) (la_currentTestimonial s) r)"

text \<open>
  The part of the view that shows the result to the viewer: everything but the carousel,
  which shows a testimonial of the component and nothing of the result.
\<close>

fun is_carousel :: "node \<Rightarrow> bool" where
  "is_carousel (TestimonialCarousel i) = True"
| "is_carousel n = False"

definition disclosed :: "'u la_state \<Rightarrow> node list" where
  "disclosed s = filter (\<lambda>n. \<not> is_carousel n) (result_view s)"

text \<open>
  The handlers around the gating: the overlay's button (\<^verbatim>\<open>setShowAuthModal(true)\<close>),
  \<^verbatim>\<open>handleAuthSuccess\<close> and \<^verbatim>\<open>handleLogout\<close> (the calls to the parent's callbacks
  and to \<^verbatim>\<open>localStorage\<close> leave this state alone).
\<close>

definition click_sign_in :: "'u la_state \<Rightarrow> 'u la_state" where
  "click_sign_in s = s\<lparr>la_showAuthModal := True\<rparr>"

definition handleAuthSuccess :: "'u \<Rightarrow> 'u la_state \<Rightarrow> 'u la_state" where
  "handleAuthSuccess authUser s = s\<lparr>la_user := Some authUser, la_showAuthModal := False\<rparr>"

definition handleLogout :: "'u la_state \<Rightarrow> 'u la_state" where
  "handleLogout s = s\<lparr>la_user := None, la_result := None\<rparr>"

text \<open>A result with one critical finding, two red flags and an AI commentary.\<close>

definition sample_result :: AnalysisResult where
  "sample_result =
     \<lparr>url = ''https://example.com'', trustScore = Fin 12, verdict = ''Scam'',
      domainAge = ''12 days'', domainRegistered = ''2025-01-01'',
      sslStatus = ''Missing'', serverLocation = ''Unknown'',
      whoisData = \<lparr>registrar = ''Unknown'', owner = ''Hidden'', email = ''Hidden'',
                   lastUpdated = ''2025-01-01''\<rparr>,
      contentAnalysis = \<lparr>aboutUsFound = False, termsOfServiceFound = False,
                         contactInfoFound = False, physicalAddressFound = False,
                         teamPhotosAnalyzed = False, stockImagesDetected = True\<rparr>,
      socialData = \<lparr>redditMentions = Fin 0, twitterMentions = Fin 0,
                    trustpilotScore = Fin 0, scamAdvisorScore = Fin 0\<rparr>,
      withdrawalComplaints = Fin 3,
      findings = [\<lparr>f_type = Critical, f_text = ''Domain registered 12 days ago''\<rparr>],
      sentiment = \<lparr>sentiment_positive = Fin 10, sentiment_neutral = Fin 20,
                   sentiment_negative = Fin 70\<rparr>,
      redFlags = [''Guaranteed returns'', ''No contact information''],
      ponziCalculation = None,
      scamProbability = ''High (88%)'',
      recommendation = ''Avoid this platform.'',
      aiAnalysis = Some ''The site shows the pattern of a Ponzi scheme.'',
      peopleExperience = None\<rparr>"

definition sample_state :: "unit la_state" where
  "sample_state =
     \<lparr>la_url = ''https://example.com'', la_analyzing = False,
      la_result = Some sample_result, la_analysisSteps = [], la_currentTestimonial = 0,
      la_error = None, la_showAuthModal = False, la_user = None,
      la_hasScrolledToResults = False\<rparr>"

section \<open>The score the backend computes\<close>

text \<open>
  The input of the aggregator as section 6 of the specification gives it:
  \<^verbatim>\<open>{kind: string, numericValue?: number, flags?: string[],
    severity?: "critical"|"warning"|"info"}\<close>, in a map from signal names, kept here
  in the order the signals were registered.
\<close>

record SignalValue =
  kind :: string
  numericValue :: "number option"
  flags :: "string list option"
  severity :: "severity option"

datatype verdict_category = Legit | Caution | Scam

datatype aggregator_error = InvalidInput

record Aggregate =
  score :: int
  category :: verdict_category

text \<open>
  Modelled from the spec: the mapping from score to verdict of the ScoreAggregator
  (section 4.1: at least 70 is the best verdict, at least 40 the middle one, anything
  else the worst). The aggregator is backend code and not among the sources.
\<close>

definition verdict_of_score :: "int \<Rightarrow> verdict_category" where
  "verdict_of_score n = (if 70 \<le> n then Legit else if 40 \<le> n then Caution else Scam)"

text \<open>
  Modelled from the spec: the ScoreAggregator of the backend, which is not among the
  sources (the components only display the \<^verbatim>\<open>trustScore\<close> and \<^verbatim>\<open>verdict\<close> that
  \<^verbatim>\<open>POST /api/analyze\<close> returns). Section 4.1: an empty signal map is an error; a
  signal of severity critical forces the score to 0 and the verdict to the worst
  category, a precedence rule evaluated before the weighted sum; otherwise every signal
  adds a signed adjustment to a fixed baseline, the score stays in [0, 100] and the
  verdict follows the thresholds. The specification fixes neither the baseline nor the
  adjustments: both are parameters. Findings and red flags are left out.
\<close>

definition ScoreAggregator ::
  "int \<Rightarrow> (SignalValue \<Rightarrow> int) \<Rightarrow> (string \<times> SignalValue) list
     \<Rightarrow> aggregator_error + Aggregate" where
  "ScoreAggregator baseline adjustment signals =
     (if signals = [] then Inl InvalidInput
      else if list_ex (\<lambda>(name, v). severity v = Some Critical) signals then
        Inr \<lparr>score = 0, category = Scam\<rparr>
      else
        (let total = max 0 (min 100 (baseline + sum_list (map (adjustment \<circ> snd) signals)))
         in Inr \<lparr>score = total, category = verdict_of_score total\<rparr>))"

text \<open>Two signals, the second one critical; and weights that would give a high score.\<close>

definition sample_signals :: "(string \<times> SignalValue) list" where
  "sample_signals =
     [(''ssl'', \<lparr>kind = ''ssl-status'', numericValue = None, flags = None,
                severity = Some Info\<rparr>),
      (''malware'', \<lparr>kind = ''content-flags'', numericValue = None,
                    flags = Some [''malware''], severity = Some Critical\<rparr>)]"

definition sample_adjustment :: "SignalValue \<Rightarrow> int" where
  "sample_adjustment v = (if kind v = ''ssl-status'' then 20 else 0)"

section \<open>Theorems\<close>

subsection \<open>Score bands\<close>

lemma bands_distinct:
  "green_band \<noteq> yellow_band" "green_band \<noteq> red_band" "yellow_band \<noteq> red_band"
  by (simp_all add: green_band_def yellow_band_def red_band_def)

lemma getScoreColor_cases:
  "getScoreColor s =
     (if js_ge s (Fin 70) then green_band
      else if js_ge s (Fin 40) then yellow_band else red_band)"
  by (simp add: getScoreColor_def green_band_def yellow_band_def red_band_def)

lemma getScoreColor_job_cases:
  "getScoreColor_job s =
     (if js_ge s (Fin 70) then green_band
      else if js_ge s (Fin 40) then yellow_band else red_band)"
  by (simp add: getScoreColor_job_def green_band_def yellow_band_def red_band_def)

lemma js_ge_70_40: "js_ge s (Fin 70) \<Longrightarrow> js_ge s (Fin 40)"
  by (cases s) simp_all

text \<open>
  Claim C1, as the code has it. For every score, NaN and the infinities included,
  \<open>getScoreColor\<close> (in both components) returns the green band exactly when
  \<open>score >= 70\<close>, the yellow band exactly when \<open>score >= 40\<close> and not \<open>score >= 70\<close>,
  and the red band exactly when not \<open>score >= 40\<close>. A score that sits on a threshold
  belongs to the upper band: 70 is green and 40 is yellow.
\<close>

theorem getScoreColor_bands:
  "(getScoreColor s = green_band) = js_ge s (Fin 70)
   \<and> (getScoreColor s = yellow_band) = (js_ge s (Fin 40) \<and> \<not> js_ge s (Fin 70))
   \<and> (getScoreColor s = red_band) = (\<not> js_ge s (Fin 40))
   \<and> getScoreColor_job s = getScoreColor s
   \<and> getScoreColor (Fin 70) = green_band
   \<and> getScoreColor (Fin 40) = yellow_band"
proof -
  have g: "(getScoreColor s = green_band) = js_ge s (Fin 70)"
    using bands_distinct by (simp add: getScoreColor_cases)
  have y: "(getScoreColor s = yellow_band) = (js_ge s (Fin 40) \<and> \<not> js_ge s (Fin 70))"
    using bands_distinct js_ge_70_40 [of s] by (auto simp add: getScoreColor_cases)
  have r: "(getScoreColor s = red_band) = (\<not> js_ge s (Fin 40))"
    using bands_distinct js_ge_70_40 [of s] by (auto simp add: getScoreColor_cases)
  have j: "getScoreColor_job s = getScoreColor s"
    by (simp add: getScoreColor_cases getScoreColor_job_cases)
  have t: "getScoreColor (Fin 70) = green_band" "getScoreColor (Fin 40) = yellow_band"
    by (simp_all add: getScoreColor_cases)
  from g y r j t show ?thesis by blast
qed

text \<open>
  Claim C1, as the specification words it, has ties at a threshold resolve to the lower
  band. The code does the opposite at both thresholds: the scores 70 and 40 get the
  green and the yellow band, not the yellow and the red one.
\<close>

theorem getScoreColor_tie_counterexample:
  "getScoreColor (Fin 70) = ''from-emerald-500 to-green-600''
   \<and> getScoreColor (Fin 70) \<noteq> yellow_band
   \<and> getScoreColor (Fin 40) = ''from-yellow-500 to-orange-500''
   \<and> getScoreColor (Fin 40) \<noteq> red_band
   \<and> getScoreColor_job (Fin 70) \<noteq> yellow_band
   \<and> getScoreColor_job (Fin 40) \<noteq> red_band"
  by (simp add: getScoreColor_def getScoreColor_job_def yellow_band_def red_band_def)

subsection \<open>JobAnalyzer: validation of the form\<close>

text \<open>
  Claim C4. When \<open>analyzeJob\<close> runs with \<open>job_url\<close> and \<open>job_description\<close> both empty,
  it returns at once: the only state change is the error message
  "Please provide either a job URL or job description", which names the two fields;
  nothing is asked of the runtime (no HTTP request, no timer); and \<open>result\<close>,
  \<open>analysisSteps\<close> and \<open>analyzing\<close> are what they were.
\<close>

theorem analyzeJob_rejects_empty:
  assumes "job_url (ja_formData s) = []" and "job_description (ja_formData s) = []"
  shows "analyzeJob s =
           (s\<lparr>ja_error := Some ''Please provide either a job URL or job description''\<rparr>, [])
         \<and> snd (analyzeJob s) = []
         \<and> ja_result (fst (analyzeJob s)) = ja_result s
         \<and> ja_analysisSteps (fst (analyzeJob s)) = ja_analysisSteps s
         \<and> ja_analyzing (fst (analyzeJob s)) = ja_analyzing s
         \<and> ja_error (fst (analyzeJob s))
             = Some ''Please provide either a job URL or job description''"
  using assms by (simp add: analyzeJob_def)

theorem analyzeJob_rejects_empty_witness:
  "job_url (ja_formData (ja_init None :: (unit, unit) ja_state)) = []
   \<and> job_description (ja_formData (ja_init None :: (unit, unit) ja_state)) = []
   \<and> analyzeJob (ja_init None :: (unit, unit) ja_state) =
       ((ja_init None)\<lparr>ja_error := Some ''Please provide either a job URL or job description''\<rparr>, [])"
proof -
  have a: "job_url (ja_formData (ja_init None :: (unit, unit) ja_state)) = []"
    by (simp add: ja_init_def)
  have b: "job_description (ja_formData (ja_init None :: (unit, unit) ja_state)) = []"
    by (simp add: ja_init_def)
  from analyzeJob_rejects_empty [OF a b] a b show ?thesis by simp
qed

text \<open>The other branch does send the request, so the model's silence above is not empty.\<close>

lemma analyzeJob_dispatches:
  "job_url (ja_formData s) \<noteq> [] \<or> job_description (ja_formData s) \<noteq> [] \<Longrightarrow>
   HttpPost (API_BASE_URL @ ''/api/analyze-job'') (ja_formData s) \<in> set (snd (analyzeJob s))
   \<and> ja_analyzing (fst (analyzeJob s))"
  by (auto simp add: analyzeJob_def)

subsection \<open>CommentsSection: when a comment is posted\<close>

text \<open>
  Claim C5. \<open>handleSubmit\<close> sends the POST request exactly when \<open>formData.user_name\<close>
  and \<open>formData.comment\<close> are both non-empty; when either is empty it returns with the
  state untouched and no request at all.
\<close>

theorem handleSubmit_posts_iff:
  "handleSubmit page s =
     (if user_name (formData s) \<noteq> [] \<and> comment (formData s) \<noteq> []
      then (s\<lparr>submitting := True\<rparr>, [PostComment (formData s) page])
      else (s, []))
   \<and> (\<exists>r. r \<in> set (snd (handleSubmit page s)))
       = (user_name (formData s) \<noteq> [] \<and> comment (formData s) \<noteq> [])
   \<and> (PostComment (formData s) page \<in> set (snd (handleSubmit page s)))
       = (user_name (formData s) \<noteq> [] \<and> comment (formData s) \<noteq> [])"
  by (auto simp add: handleSubmit_def)

subsection \<open>DynamicStats: formatCompact\<close>

text \<open>
  Claim C9. \<open>formatCompact\<close> returns a string for every number and never throws,
  whatever the runtime's formatter does. When the formatter throws (the fallback
  branch), a finite value of at least 1,000,000 gives the value divided by 1,000,000
  with one decimal and the suffix M, a value of at least 1,000 gives the value divided
  by 1,000 with one decimal and the suffix K, and any smaller value gives its plain
  string; when the formatter returns, its string is the result.
\<close>

theorem formatCompact_total:
  "(\<exists>s. formatCompact rt v = Inr s)
   \<and> (intl_compact rt (Fin x) = Inl e \<longrightarrow>
        formatCompact rt (Fin x) =
          Inr (if 1000000 \<le> x then fixed_digits rt 1 (Fin (x / 1000000)) @ ''M''
               else if 1000 \<le> x then fixed_digits rt 1 (Fin (x / 1000)) @ ''K''
               else to_String rt (Fin x)))
   \<and> (intl_compact rt v = Inr s' \<longrightarrow> formatCompact rt v = Inr s')"
  by (auto simp add: formatCompact_def toFixed_def split: sum.splits)

theorem formatCompact_total_witness:
  "intl_compact no_intl_runtime (Fin 1500000) = Inl ReferenceError
   \<and> formatCompact no_intl_runtime (Fin 1500000) = Inr ''1.5M''"
  using formatCompact_total [of no_intl_runtime "Fin 1500000" 1500000 ReferenceError "''x''"]
  by (simp add: no_intl_runtime_def)

subsection \<open>DynamicStats: the testimonial index\<close>

lemma js_rem_range: "0 \<le> a \<Longrightarrow> 0 < b \<Longrightarrow> 0 \<le> js_rem a b \<and> js_rem a b < b"
  by (cases "a = 0") (simp_all add: js_rem_def)

lemma length_testimonials: "length testimonials = 3"
  by (simp add: testimonials_def)

lemma ds_step_in_range:
  assumes "0 \<le> currentTestimonial s" and "currentTestimonial s < int (length testimonials)"
  shows "0 \<le> currentTestimonial (ds_step s e)
         \<and> currentTestimonial (ds_step s e) < int (length testimonials)"
proof (cases e)
  case TimerTick
  have "0 \<le> currentTestimonial s + 1" using assms by simp
  from js_rem_range [OF this, of "int (length testimonials)"] assms TimerTick
  show ?thesis by (simp add: length_testimonials)
next
  case (DotClick k)
  with assms show ?thesis by (simp add: dot_buttons_def)
qed (use assms in simp_all)

lemma ds_foldl_in_range:
  "0 \<le> currentTestimonial s \<Longrightarrow> currentTestimonial s < int (length testimonials) \<Longrightarrow>
   0 \<le> currentTestimonial (foldl ds_step s evs)
   \<and> currentTestimonial (foldl ds_step s evs) < int (length testimonials)"
proof (induction evs arbitrary: s)
  case Nil
  then show ?case by simp
next
  case (Cons e evs)
  from ds_step_in_range [OF Cons.prems, of e] Cons.IH [of "ds_step s e"]
  show ?case by simp
qed

text \<open>
  Claim C10. The index starts at 0 and, after any sequence of timer ticks, dot clicks
  and pause events, lies in \<open>[0, testimonials.length)\<close>; so
  \<open>testimonials[currentTestimonial]\<close> is an element of the array and the panel that
  reads its fields does not throw.
\<close>

theorem currentTestimonial_in_range:
  "currentTestimonial ds_init = 0
   \<and> 0 \<le> currentTestimonial (ds_run evs)
   \<and> currentTestimonial (ds_run evs) < int (length testimonials)
   \<and> current (ds_run evs) = Some (testimonials ! nat (currentTestimonial (ds_run evs)))
   \<and> testimonial_panel (ds_run evs) \<noteq> Inl TypeError"
proof -
  have i: "0 \<le> currentTestimonial ds_init" "currentTestimonial ds_init < int (length testimonials)"
    by (simp_all add: ds_init_def length_testimonials)
  from ds_foldl_in_range [OF i, of evs]
  have r: "0 \<le> currentTestimonial (ds_run evs)"
          "currentTestimonial (ds_run evs) < int (length testimonials)"
    by (simp_all add: ds_run_def)
  then have c: "current (ds_run evs) = Some (testimonials ! nat (currentTestimonial (ds_run evs)))"
    by (simp add: current_def)
  then have p: "testimonial_panel (ds_run evs) \<noteq> Inl TypeError"
    by (simp add: testimonial_panel_def)
  have z: "currentTestimonial ds_init = 0" by (simp add: ds_init_def)
  from z r c p show ?thesis by blast
qed

subsection \<open>CommentsSection: the rating and the summary\<close>

lemma star_buttons_in_range:
  "k < length star_buttons \<Longrightarrow> rating_in_range ((star_buttons ! k) fd)"
proof -
  assume "k < length star_buttons"
  then have "k < 5" by (simp add: star_buttons_def)
  then have "k = 0 \<or> k = 1 \<or> k = 2 \<or> k = 3 \<or> k = 4" by arith
  then show ?thesis by (auto simp add: star_buttons_def rating_in_range_def)
qed

lemma experience_buttons_rating:
  "k < length experience_buttons \<Longrightarrow> rating ((experience_buttons ! k) fd) = rating fd"
proof -
  assume "k < length experience_buttons"
  then have "k < 3" by (simp add: experience_buttons_def)
  then have "k = 0 \<or> k = 1 \<or> k = 2" by arith
  then show ?thesis by (auto simp add: experience_buttons_def)
qed

lemma on_form_in_range:
  assumes "rating_in_range (formData s)" and "rating_in_range (f (formData s))"
  shows "rating_in_range (formData (fst (on_form s f))) \<and> snd (on_form s f) = []"
  using assms by (simp add: on_form_def)

lemma loadComments_in_range: "list_all submits_in_range (loadComments hostname page)"
  by (simp add: loadComments_def split: option.splits)

lemma markHelpful_in_range: "list_all submits_in_range (markHelpful hostname page i)"
  by (simp add: markHelpful_def split: option.splits)

lemma cs_step_in_range:
  assumes "rating_in_range (formData s)"
  shows "rating_in_range (formData (fst (cs_step hostname page s e)))
         \<and> list_all submits_in_range (snd (cs_step hostname page s e))"
proof (cases e)
  case ToggleForm
  with assms show ?thesis by simp
next
  case (TypeUserName v)
  with assms show ?thesis by (simp add: on_form_def rating_in_range_def)
next
  case (StarClick k)
  with assms star_buttons_in_range [of k "formData s"] show ?thesis
    by (simp add: on_form_def)
next
  case (ExperienceClick k)
  with assms experience_buttons_rating [of k "formData s"] show ?thesis
    by (simp add: on_form_def rating_in_range_def)
next
  case (TypeComment v)
  with assms show ?thesis by (simp add: on_form_def rating_in_range_def)
next
  case (CheckWasScammed b)
  with assms show ?thesis by (simp add: on_form_def rating_in_range_def)
next
  case SubmitClick
  with assms show ?thesis by (simp add: handleSubmit_def)
next
  case (SubmitSettled outcome)
  with assms loadComments_in_range [of hostname page] show ?thesis
    by (cases outcome) (simp_all add: handleSubmit_settled_def empty_form_def rating_in_range_def)
next
  case (CommentsLoaded payload)
  with assms show ?thesis
    by (simp add: loadComments_settled_def split: option.splits prod.splits)
next
  case (HelpfulClick k)
  with assms markHelpful_in_range [of hostname page] show ?thesis by simp
next
  case HelpfulSettled
  with assms loadComments_in_range [of hostname page] show ?thesis by simp
qed

lemma cs_run_from_in_range:
  "rating_in_range (formData s) \<Longrightarrow> list_all submits_in_range sent \<Longrightarrow>
   rating_in_range (formData (fst (cs_run_from hostname page (s, sent) evs)))
   \<and> list_all submits_in_range (snd (cs_run_from hostname page (s, sent) evs))"
proof (induction evs arbitrary: s sent)
  case Nil
  then show ?case by simp
next
  case (Cons e evs)
  obtain s' reqs where st: "cs_step hostname page s e = (s', reqs)"
    by (cases "cs_step hostname page s e")
  from cs_step_in_range [OF Cons.prems(1), of hostname page e] st
  have "rating_in_range (formData s')" "list_all submits_in_range reqs" by simp_all
  with Cons.prems(2) have "rating_in_range (formData s')" "list_all submits_in_range (sent @ reqs)"
    by simp_all
  from Cons.IH [OF this] st show ?case by simp
qed

text \<open>
  Claim C7. The form's rating starts at 5 and, after any sequence of events of the
  component, is an integer from 1 to 5; and every request that submits a comment, in any
  run, carries a rating from 1 to 5.
\<close>

theorem rating_always_in_range:
  "rating (formData cs_init) = 5
   \<and> 1 \<le> rating (formData (fst (cs_run hostname page evs)))
   \<and> rating (formData (fst (cs_run hostname page evs))) \<le> 5
   \<and> (PostComment fd u \<in> set (snd (cs_run hostname page evs)) \<longrightarrow> 1 \<le> rating fd \<and> rating fd \<le> 5)"
proof -
  have i: "rating_in_range (formData cs_init)"
    by (simp add: cs_init_def empty_form_def rating_in_range_def)
  have l: "list_all submits_in_range (loadComments hostname page)"
    by (rule loadComments_in_range)
  from cs_run_from_in_range [OF i l, of hostname page evs]
  have r: "rating_in_range (formData (fst (cs_run hostname page evs)))"
    and q: "list_all submits_in_range (snd (cs_run hostname page evs))"
    by (simp_all add: cs_run_def)
  have p: "PostComment fd u \<in> set (snd (cs_run hostname page evs)) \<longrightarrow> rating_in_range fd"
  proof
    assume "PostComment fd u \<in> set (snd (cs_run hostname page evs))"
    with q have "submits_in_range (PostComment fd u)" by (auto simp add: list_all_iff)
    then show "rating_in_range fd" by simp
  qed
  have z: "rating (formData cs_init) = 5" by (simp add: cs_init_def empty_form_def)
  from z r p show ?thesis by (simp add: rating_in_range_def)
qed


theorem rating_always_in_range_witness:
  "PostComment \<lparr>user_name = ''Ann'', rating = 3, experience = ''positive'', comment = ''fine'',
                was_scammed = False\<rparr> ''example.com''
     \<in> set (snd (cs_run (\<lambda>u. Some u) ''example.com''
                [ToggleForm, TypeUserName ''Ann'', TypeComment ''fine'', StarClick 2, SubmitClick]))
   \<and> 1 \<le> rating \<lparr>user_name = ''Ann'', rating = 3, experience = ''positive'', comment = ''fine'',
                was_scammed = False\<rparr>
   \<and> rating \<lparr>user_name = ''Ann'', rating = 3, experience = ''positive'', comment = ''fine'',
                was_scammed = False\<rparr> \<le> 5"
proof -
  have m: "PostComment \<lparr>user_name = ''Ann'', rating = 3, experience = ''positive'', comment = ''fine'',
                was_scammed = False\<rparr> ''example.com''
     \<in> set (snd (cs_run (\<lambda>u. Some u) ''example.com''
                [ToggleForm, TypeUserName ''Ann'', TypeComment ''fine'', StarClick 2, SubmitClick]))"
    by (simp add: cs_run_def cs_init_def empty_form_def loadComments_def domain_of_def
        on_form_def star_buttons_def submit_disabled_def handleSubmit_def)
  from rating_always_in_range [of "(\<lambda>u. Some u)" "''example.com''"
      "[ToggleForm, TypeUserName ''Ann'', TypeComment ''fine'', StarClick 2, SubmitClick]"
      "\<lparr>user_name = ''Ann'', rating = 3, experience = ''positive'', comment = ''fine'',
                was_scammed = False\<rparr>" "''example.com''"] m
  show ?thesis by simp
qed


lemma cs_step_stats:
  "\<not> brings_payload e \<Longrightarrow> stats (fst (cs_step hostname page s e)) = stats s"
proof (cases e)
  case (SubmitSettled outcome)
  then show ?thesis by (cases outcome) (simp_all add: handleSubmit_settled_def)
next
  case (CommentsLoaded payload)
  assume "\<not> brings_payload e"
  with CommentsLoaded have "payload = None" by (cases payload) simp_all
  with CommentsLoaded show ?thesis by (simp add: loadComments_settled_def)
qed (simp_all add: on_form_def handleSubmit_def)

lemma cs_run_from_stats:
  "list_all (\<lambda>e. \<not> brings_payload e) evs \<Longrightarrow>
   stats (fst (cs_run_from hostname page (s, sent) evs)) = stats s"
proof (induction evs arbitrary: s sent)
  case Nil
  then show ?case by simp
next
  case (Cons e evs)
  obtain s' reqs where st: "cs_step hostname page s e = (s', reqs)"
    by (cases "cs_step hostname page s e")
  from Cons.prems have e: "\<not> brings_payload e" and es: "list_all (\<lambda>e. \<not> brings_payload e) evs"
    by simp_all
  from cs_step_stats [OF e, of hostname page s] st have "stats s' = stats s" by simp
  with Cons.IH [OF es, of s' "sent @ reqs"] st show ?case by simp
qed

text \<open>
  Claim C6. The summary of the empty comment set has \<open>total_comments\<close>,
  \<open>average_rating\<close>, \<open>scam_reports\<close> and the three buckets of \<open>experience_breakdown\<close>
  all 0. The component's \<open>stats\<close> start with exactly these values and keep them in every
  run until a payload of the backend is loaded.
\<close>

theorem empty_summary_is_zero:
  "CommentAggregator [] = initial_stats
   \<and> total_comments (CommentAggregator []) = 0
   \<and> average_rating (CommentAggregator []) = 0
   \<and> scam_reports (CommentAggregator []) = 0
   \<and> positive (experience_breakdown (CommentAggregator [])) = 0
   \<and> neutral (experience_breakdown (CommentAggregator [])) = 0
   \<and> negative (experience_breakdown (CommentAggregator [])) = 0
   \<and> stats cs_init =
       \<lparr>total_comments = 0, average_rating = 0, scam_reports = 0,
        experience_breakdown = \<lparr>positive = 0, neutral = 0, negative = 0\<rparr>\<rparr>
   \<and> (list_all (\<lambda>e. \<not> brings_payload e) evs \<longrightarrow>
        stats (fst (cs_run hostname page evs)) = CommentAggregator [])"
proof -
  have a: "CommentAggregator [] = initial_stats"
    by (simp add: CommentAggregator_def initial_stats_def)
  have b: "stats cs_init = initial_stats" by (simp add: cs_init_def)
  have c: "list_all (\<lambda>e. \<not> brings_payload e) evs \<longrightarrow>
        stats (fst (cs_run hostname page evs)) = initial_stats"
    using cs_run_from_stats [of evs hostname page cs_init "loadComments hostname page"] b
    by (simp add: cs_run_def)
  from a b c show ?thesis by (simp add: initial_stats_def)
qed

theorem empty_summary_is_zero_witness:
  "list_all (\<lambda>e. \<not> brings_payload e) [ToggleForm, StarClick 0, CommentsLoaded None]
   \<and> stats (fst (cs_run (\<lambda>u. None) ''example.com'' [ToggleForm, StarClick 0, CommentsLoaded None]))
       = CommentAggregator []"
  using empty_summary_is_zero [of "[ToggleForm, StarClick 0, CommentsLoaded None]"
      "(\<lambda>u. None)" "''example.com''"]
  by simp

subsection \<open>LegitimacyAnalyzer: the gated result block\<close>

lemma not_carousel_panels:
  "filter (\<lambda>n. \<not> is_carousel n) (metric_cards r) = metric_cards r"
  "filter (\<lambda>n. \<not> is_carousel n) (ai_panel r) = ai_panel r"
  "filter (\<lambda>n. \<not> is_carousel n) (people_panel r) = people_panel r"
  "filter (\<lambda>n. \<not> is_carousel n) (findings_panel r) = findings_panel r"
  "filter (\<lambda>n. \<not> is_carousel n) (recommendation_panel r) = recommendation_panel r"
  "filter (\<lambda>n. \<not> is_carousel n) (sign_in_overlay user) = sign_in_overlay user"
  "\<not> is_carousel (trust_score_section r)"
  by (simp_all add: metric_cards_def ai_panel_def people_panel_def findings_panel_def
      recommendation_panel_def sign_in_overlay_def trust_score_section_def filter_map o_def
      split: option.splits)

lemma disclosed_eq:
  "disclosed s =
     (case la_result s of
        None \<Rightarrow> []
      | Some r \<Rightarrow>
          trust_score_section r # sign_in_overlay (la_user s) @ metric_cards r @ ai_panel r
          @ people_panel r @ findings_panel r @ recommendation_panel r
          @ [CommentsSectionNode (url r)])"
  by (simp add: disclosed_def result_view_def result_block_def detail_panels_def
      not_carousel_panels split: option.splits)

text \<open>
  Claim C8. What the result block discloses is a function of the pair (user, result):
  two states of the component that agree on the user and on the result disclose the same
  elements, whatever the rest of the state is, so applying the gating twice to the same
  pair gives the same visible subset; the overlay and the container's class depend on
  the user alone. The gating changes neither input: rendering calls no setter, and the
  overlay's own button leaves the user, the result and what is disclosed as they were.
\<close>

theorem disclosure_function_of_user_and_result:
  assumes "la_user s = la_user s'" and "la_result s = la_result s'"
  shows "disclosed s = disclosed s'
         \<and> sign_in_overlay (la_user s) = sign_in_overlay (la_user s')
         \<and> container_class (la_user s) = container_class (la_user s')
         \<and> la_user (click_sign_in s) = la_user s
         \<and> la_result (click_sign_in s) = la_result s
         \<and> disclosed (click_sign_in s) = disclosed s"
proof -
  have a: "disclosed s = disclosed s'"
    unfolding disclosed_eq assms(1) assms(2) by (rule refl)
  have b: "sign_in_overlay (la_user s) = sign_in_overlay (la_user s')"
    and c: "container_class (la_user s) = container_class (la_user s')"
    unfolding assms(1) by (rule refl)+
  have d: "la_user (click_sign_in s) = la_user s" "la_result (click_sign_in s) = la_result s"
    by (simp_all add: click_sign_in_def)
  have e: "disclosed (click_sign_in s) = disclosed s"
    unfolding disclosed_eq d by (rule refl)
  from a b c d e show ?thesis by blast
qed

theorem disclosure_function_of_user_and_result_witness:
  "la_user sample_state
     = la_user (sample_state\<lparr>la_currentTestimonial := 2, la_showAuthModal := True, la_analyzing := True\<rparr>)
   \<and> la_result sample_state
     = la_result (sample_state\<lparr>la_currentTestimonial := 2, la_showAuthModal := True, la_analyzing := True\<rparr>)
   \<and> disclosed sample_state
     = disclosed (sample_state\<lparr>la_currentTestimonial := 2, la_showAuthModal := True, la_analyzing := True\<rparr>)"
  using disclosure_function_of_user_and_result [of sample_state
      "sample_state\<lparr>la_currentTestimonial := 2, la_showAuthModal := True, la_analyzing := True\<rparr>"]
  by simp

text \<open>
  Claim C2, as the specification words it, keeps \<open>findings\<close> and \<open>aiAnalysis\<close> from an
  unauthenticated viewer. In the code the viewer with \<open>user == null\<close> gets them: the
  rendered block of the sample result holds its finding and its AI commentary.
\<close>

theorem unauthenticated_receives_details_counterexample:
  "la_user sample_state = None
   \<and> FindingRow Critical ''Domain registered 12 days ago'' \<in> set (result_view sample_state)
   \<and> AIAnalysisPanel ''The site shows the pattern of a Ponzi scheme.''
       \<in> set (result_view sample_state)"
  by (simp add: sample_state_def sample_result_def result_view_def result_block_def
      detail_panels_def findings_panel_def ai_panel_def)

text \<open>
  Claim C2, as the code has it. For every result and every viewer the block starts with
  the trust score section, which shows the url, the score and the verdict. For an
  unauthenticated viewer the block is this section, the sign-in overlay, and the same
  detail panels a signed-in viewer gets: every finding has its row there and a non-empty
  \<open>aiAnalysis\<close> has its panel; the overlay covers them and withholds nothing. The
  \<open>redFlags\<close> of the result are shown to no viewer: the block does not depend on them.
\<close>

theorem unauthenticated_view:
  "result_block None ct r = trust_score_section r # SignInOverlay # detail_panels ct r
   \<and> result_block (Some u) ct r = trust_score_section r # detail_panels ct r
   \<and> hd (result_block user ct r) =
       TrustScoreSection (url r) (getScoreColor (trustScore r)) (trustScore r)
         (getVerdictColor (verdict r)) (verdict r)
   \<and> set (map (\<lambda>f. FindingRow (f_type f) (f_text f)) (findings r))
       \<subseteq> set (result_block None ct r)
   \<and> set (ai_panel r) \<subseteq> set (result_block None ct r)
   \<and> ai_panel (r\<lparr>aiAnalysis := Some (c # cs)\<rparr>) = [AIAnalysisPanel (c # cs)]
   \<and> result_block user ct (r\<lparr>redFlags := fl\<rparr>) = result_block user ct r"
proof -
  have a: "result_block None ct r = trust_score_section r # SignInOverlay # detail_panels ct r"
    by (simp add: result_block_def sign_in_overlay_def)
  have b: "result_block (Some u) ct r = trust_score_section r # detail_panels ct r"
    by (simp add: result_block_def sign_in_overlay_def)
  have c: "hd (result_block user ct r) =
       TrustScoreSection (url r) (getScoreColor (trustScore r)) (trustScore r)
         (getVerdictColor (verdict r)) (verdict r)"
    by (simp add: result_block_def trust_score_section_def)
  have d: "set (map (\<lambda>f. FindingRow (f_type f) (f_text f)) (findings r))
       \<subseteq> set (result_block None ct r)"
    unfolding a by (auto simp add: detail_panels_def findings_panel_def)
  have e: "set (ai_panel r) \<subseteq> set (result_block None ct r)"
    unfolding a by (auto simp add: detail_panels_def)
  have f: "ai_panel (r\<lparr>aiAnalysis := Some (c # cs)\<rparr>) = [AIAnalysisPanel (c # cs)]"
    by (simp add: ai_panel_def)
  have g: "result_block user ct (r\<lparr>redFlags := fl\<rparr>) = result_block user ct r"
    by (simp add: result_block_def detail_panels_def trust_score_section_def metric_cards_def
        threat_status_def ai_panel_def people_panel_def findings_panel_def
        recommendation_panel_def)
  from a b c d e f g show ?thesis by blast
qed

subsection \<open>The critical override\<close>

lemma list_ex_critical:
  "(name, v) \<in> set signals \<Longrightarrow> severity v = Some Critical \<Longrightarrow>
   list_ex (\<lambda>(name, v). severity v = Some Critical) signals"
  by (auto simp add: list_ex_iff)

text \<open>
  Claim C3. For every signal map that holds a signal of severity critical, the
  aggregated score is 0 and the verdict is the worst category, whatever the baseline,
  the adjustments and the other signals are; 0 is in the worst band of the thresholds,
  and for a score of 0 the component opens its findings with the critical-threat banner.
\<close>

theorem critical_override:
  assumes "(name, v) \<in> set signals" and "severity v = Some Critical"
  shows "ScoreAggregator baseline adjustment signals = Inr \<lparr>score = 0, category = Scam\<rparr>
         \<and> verdict_of_score 0 = Scam
         \<and> hd (findings_panel (r\<lparr>trustScore := Fin (real_of_int 0)\<rparr>)) = CriticalThreatBanner"
proof -
  from assms(1) have ne: "signals \<noteq> []" by auto
  from list_ex_critical [OF assms] ne
  have a: "ScoreAggregator baseline adjustment signals = Inr \<lparr>score = 0, category = Scam\<rparr>"
    by (simp add: ScoreAggregator_def)
  have b: "verdict_of_score 0 = Scam" by (simp add: verdict_of_score_def)
  have c: "hd (findings_panel (r\<lparr>trustScore := Fin (real_of_int 0)\<rparr>)) = CriticalThreatBanner"
    by (simp add: findings_panel_def)
  from a b c show ?thesis by blast
qed

text \<open>Without the critical signal the same weights give a score of 70.\<close>

lemma without_critical:
  "ScoreAggregator 50 sample_adjustment [hd sample_signals] = Inr \<lparr>score = 70, category = Legit\<rparr>"
  by (simp add: ScoreAggregator_def sample_signals_def sample_adjustment_def verdict_of_score_def)

theorem critical_override_witness:
  "(''malware'', \<lparr>kind = ''content-flags'', numericValue = None,
                    flags = Some [''malware''], severity = Some Critical\<rparr>) \<in> set sample_signals
   \<and> severity \<lparr>kind = ''content-flags'', numericValue = None,
                    flags = Some [''malware''], severity = Some Critical\<rparr> = Some Critical
   \<and> ScoreAggregator 50 sample_adjustment sample_signals = Inr \<lparr>score = 0, category = Scam\<rparr>"
proof -
  have m: "(''malware'', \<lparr>kind = ''content-flags'', numericValue = None,
                    flags = Some [''malware''], severity = Some Critical\<rparr>) \<in> set sample_signals"
    by (simp add: sample_signals_def)
  have s: "severity \<lparr>kind = ''content-flags'', numericValue = None,
                    flags = Some [''malware''], severity = Some Critical\<rparr> = Some Critical"
    by simp
  from critical_override [OF m s, of 50 sample_adjustment] m s show ?thesis by simp
qed

end
